theory Spec2Isabelle
  imports Complex_Main "HOL-Library.Word"
begin

section \<open>Identifiers, locations, labels\<close>

text \<open>
  A \<open>GraphId\<close> is a 64-bit union of bit fields; it is represented by its \<open>value()\<close>, and
  equality of identifiers is equality of that value. The value of a default-constructed
  \<open>GraphId\<close> is not fixed by the sources at hand; it is the field \<open>GraphId_default\<close> of
  the environment below.
\<close>

type_synonym graphid = "64 word"

text \<open>
  \<open>midgard::PointLL\<close>, built as \<open>PointLL{lng, lat}\<close>. Coordinates, fractional offsets and
  costs are floating-point numbers in the source; they are only stored, copied and
  printed here, never computed with, and are represented by reals.
\<close>

record pointll =
  lng :: real
  lat :: real

record path_edge =
  graph_id :: graphid
  percent_along :: real

record location =
  ll :: pointll
  path_edges :: "path_edge list"

datatype travel_mode = kDrive | kPedestrian | kBicycle | kPublicTransit

record cost =
  cost :: real
  secs :: real

text \<open>The part of \<open>sif::EdgeLabel\<close> that \<open>label_cb\<close> reads.\<close>

record edge_label =
  mode :: travel_mode
  label_cost :: cost
  edgeid :: graphid
  restriction_idx :: "8 word"
  transition_cost :: cost

text \<open>\<open>PathInfo\<close>, with the constructor's arguments in the order \<open>label_cb\<close> passes them.\<close>

datatype path_info =
  PathInfo travel_mode cost graphid nat "8 word" cost bool

fun path_info_edgeid :: "path_info \<Rightarrow> graphid" where
  "path_info_edgeid (PathInfo m c e t r tc rec) = e"

fun path_info_elapsed_cost :: "path_info \<Rightarrow> cost" where
  "path_info_elapsed_cost (PathInfo m c e t r tc rec) = c"

fun path_info_transition_cost :: "path_info \<Rightarrow> cost" where
  "path_info_transition_cost (PathInfo m c e t r tc rec) = tc"

section \<open>Errors and output\<close>

text \<open>What a callee of \<open>buildPath\<close> can throw: a \<open>std::exception\<close> with its \<open>what()\<close>,
  or a value of any other type.\<close>

datatype thrown = Std_exception string | Other_exception

text \<open>
  How a call ends when it does not return. \<open>Undefined_access\<close> stands for the accesses the
  source makes without a guard (\<open>front()\<close> and \<open>back()\<close> of an empty vector, dereferencing
  an iterator at or past the end); \<open>Null_dereference\<close> for \<open>p->\<close> on a null pointer. No
  handler of the source catches either.
\<close>

datatype exn =
    Logic_error string
  | Valhalla_exception nat
  | Uncaught thrown
  | Undefined_access
  | Null_dereference

text \<open>What the code writes, in order: the lines on \<open>std::cout\<close> and the error log.\<close>

datatype event =
    Cout_edge_ids "graphid list"
  | Cout_path "(graphid \<times> real \<times> real) list"
  | Log_error string
  | Cout_line string
  | Cout_num_vertices nat
  | Cout_num_edges nat
  | Cout_location graphid pointll
  | Cout_matrix_result string
  | Cout_matrix_output string

section \<open>The recost service\<close>

text \<open>
  \<open>sif::recost_forward\<close> is an external collaborator. All it can do to \<open>buildPath\<close> is call
  the two callbacks it is handed, then return or throw. A run of the service is therefore a
  tree: pull the next edge from \<open>edge_cb\<close> and continue according to the identifier
  received, push a label to \<open>label_cb\<close> and continue, return, or throw.
\<close>

datatype recost_proc =
    Return
  | Throw thrown
  | Pull "graphid \<Rightarrow> recost_proc"
  | Push edge_label recost_proc

section \<open>The path materializer\<close>

text \<open>\<open>find_percent_along\<close>: the first candidate path edge of the location with the given id.\<close>

fun find_percent_along_loop :: "path_edge list \<Rightarrow> graphid \<Rightarrow> exn + real" where
  "find_percent_along_loop [] edge_id =
     Inl (Logic_error ''Could not find candidate edge for the location'')"
| "find_percent_along_loop (e # es) edge_id =
     (if graph_id e = edge_id then Inr (percent_along e)
      else find_percent_along_loop es edge_id)"

definition find_percent_along :: "location \<Rightarrow> graphid \<Rightarrow> exn + real" where
  "find_percent_along location edge_id = find_percent_along_loop (path_edges location) edge_id"

text \<open>
  \<open>edge_cb\<close>. The vector \<open>path_edges\<close> of \<open>buildPath\<close> is called \<open>edge_ids\<close> here
  (the name \<open>path_edges\<close> is taken by the field of a location). The iterator
  \<open>edge_itr\<close> is an index into the vector, with \<open>end()\<close> the index \<open>length edge_ids\<close>.
  The call returns the identifier yielded and the iterator after the call.
\<close>

definition edge_cb :: "graphid \<Rightarrow> graphid list \<Rightarrow> nat \<Rightarrow> graphid \<times> nat" where
  "edge_cb dflt edge_ids edge_itr =
     (if edge_itr = length edge_ids then (dflt, edge_itr)
      else (edge_ids ! edge_itr, Suc edge_itr))"

text \<open>\<open>label_cb\<close>: appends one \<open>PathInfo\<close> to \<open>path\<close>.\<close>

definition label_cb :: "graphid list \<Rightarrow> path_info list \<Rightarrow> edge_label \<Rightarrow> path_info list" where
  "label_cb recovered_inner_edges path label =
     path @ [PathInfo (mode label) (label_cost label) (edgeid label) 0 (restriction_idx label)
               (transition_cost label) (edgeid label \<in> set recovered_inner_edges)]"

text \<open>
  Running the service against the two callbacks. The state is what the callbacks capture
  by reference: \<open>edge_itr\<close> and \<open>path\<close>. The result is that state when the service stops,
  and what it threw, if it did.
\<close>

primrec run_recost ::
  "recost_proc \<Rightarrow> graphid \<Rightarrow> graphid list \<Rightarrow> graphid list \<Rightarrow> nat \<times> path_info list
     \<Rightarrow> (nat \<times> path_info list) \<times> thrown option" where
  "run_recost Return dflt recovered edge_ids st = (st, None)"
| "run_recost (Throw t) dflt recovered edge_ids st = (st, Some t)"
| "run_recost (Pull k) dflt recovered edge_ids st =
     run_recost (k (fst (edge_cb dflt edge_ids (fst st)))) dflt recovered edge_ids
       (snd (edge_cb dflt edge_ids (fst st)), snd st)"
| "run_recost (Push label p) dflt recovered edge_ids st =
     run_recost p dflt recovered edge_ids (fst st, label_cb recovered (snd st) label)"

text \<open>\<open>front()\<close> and \<open>back()\<close> of a vector: not defined on the empty one.\<close>

definition vector_front :: "'a list \<Rightarrow> exn + 'a" where
  "vector_front xs = (case xs of [] \<Rightarrow> Inl Undefined_access | x # _ \<Rightarrow> Inr x)"

definition vector_back :: "'a list \<Rightarrow> exn + 'a" where
  "vector_back xs = (if xs = [] then Inl Undefined_access else Inr (last xs))"

text \<open>The last loop of \<open>buildPath\<close>: one line per element of \<open>path\<close>.\<close>

definition print_path :: "path_info list \<Rightarrow> event" where
  "print_path path =
     Cout_path (map (\<lambda>p. (path_info_edgeid p, cost (path_info_elapsed_cost p),
                           cost (path_info_transition_cost p))) path)"

text \<open>
  \<open>buildPath\<close>. The reader and the costing are fixed for a solve and are part of the
  service \<open>recost_forward\<close>, which is given the remaining arguments of the call:
  \<open>source_pct\<close>, \<open>target_pct\<close>, \<open>time_info\<close>, \<open>invariant\<close> and \<open>ignore_access = true\<close>.
  The result is what was written, and how the call ended.
\<close>

definition buildPath ::
  "graphid \<Rightarrow> (real \<Rightarrow> real \<Rightarrow> 'ti \<Rightarrow> bool \<Rightarrow> bool \<Rightarrow> recost_proc)
     \<Rightarrow> location \<Rightarrow> location \<Rightarrow> 'ti \<Rightarrow> bool \<Rightarrow> graphid list \<Rightarrow> event list \<times> (exn + unit)" where
  "buildPath dflt recost_forward origin dest time_info invariant edge_ids =
     (let out = [Cout_edge_ids edge_ids];
          recovered_inner_edges = [];
          path = [];
          edge_itr = 0
      in case vector_front edge_ids of
           Inl ub \<Rightarrow> (out, Inl ub)
         | Inr first \<Rightarrow>
      (case find_percent_along origin first of
           Inl _ \<Rightarrow> (out, Inl (Logic_error ''Could not find candidate edge used for origin label''))
         | Inr source_pct \<Rightarrow>
      (case vector_back edge_ids of
           Inl ub \<Rightarrow> (out, Inl ub)
         | Inr final \<Rightarrow>
      (case find_percent_along dest final of
           Inl _ \<Rightarrow>
             (out, Inl (Logic_error ''Could not find candidate edge used for destination label''))
         | Inr target_pct \<Rightarrow>
      (case run_recost (recost_forward source_pct target_pct time_info invariant True)
              dflt recovered_inner_edges edge_ids (edge_itr, path) of
           (st, None) \<Rightarrow> (out @ [print_path (snd st)], Inr ())
         | (st, Some (Std_exception what)) \<Rightarrow>
             (out @ [Log_error (''Bi-directional astar failed to recost final path: '' @ what),
                     print_path (snd st)], Inr ())
         | (st, Some Other_exception) \<Rightarrow> (out, Inl (Uncaught Other_exception)))))))"

section \<open>Graph construction and the solve\<close>

text \<open>
  \<open>std::to_string\<close> of a \<open>GraphId\<close>: the decimal digits of its 64-bit value. The conversion
  of a \<open>GraphId\<close> to an integer is not among the sources at hand; the value is what the
  class documents as its single 64-bit representation.
\<close>

definition digit_char :: "nat \<Rightarrow> char" where
  "digit_char d = ''0123456789'' ! d"

fun to_string_nat :: "nat \<Rightarrow> string" where
  "to_string_nat n =
     (if n < 10 then [digit_char n] else to_string_nat (n div 10) @ [digit_char (n mod 10)])"

declare to_string_nat.simps [simp del]

definition to_string :: "graphid \<Rightarrow> string" where
  "to_string g = to_string_nat (unat g)"

text \<open>\<open>GraphId(edge.id())\<close>: the identifier with the given 64-bit value.\<close>

definition GraphId :: "64 word \<Rightarrow> graphid" where
  "GraphId v = v"

text \<open>What the solve reads of a \<open>DirectedEdge\<close> and of a tile's header; a \<open>NodeInfo\<close> is
  represented by its method \<open>latlng\<close>, a function of the tile's base corner.\<close>

record directed_edge =
  forward :: bool

record graph_tile =
  base_ll :: pointll

type_synonym node_info = "pointll \<Rightarrow> pointll"

text \<open>
  \<open>CPVertex\<close> and \<open>CPEdge\<close> belong to the graph class, whose source is not at hand. A vertex
  is what the solve can make of one: constructed from a node id, or default-constructed.
\<close>

datatype cpvertex = CPVertex graphid | CPVertex_default

datatype cpedge = CPEdge cost graphid

datatype date_time_type = Options_no_time | Options_current | Options_depart_at
  | Options_arrive_by | Options_invariant

datatype options_action = sources_to_targets

text \<open>The costing options \<open>co\<close>: each avoid edge and each chinese edge by its \<open>id()\<close>.\<close>

record costing_options =
  avoid_edges :: "64 word list"
  chinese_edges :: "64 word list"

text \<open>The request, as far as the solve reads it: \<open>request.options()\<close>.\<close>

record request =
  locations :: "location list"
  costing_options :: costing_options
  has_date_time_type :: bool
  date_time_type :: date_time_type

text \<open>
  Everything the solve calls that is not in its source file. The graph reader: pointers
  are options, \<open>None\<close> the null pointer. The multigraph \<open>ChinesePostmanGraph\<close>, of an
  abstract type \<open>'g\<close>: its methods take the graph and return the new one where they mutate
  it. The worker's own services: request parsing, the time context, the recost service,
  the matrix service (which takes its request by mutable reference). And
  \<open>std::to_string\<close> on a floating-point coordinate.
\<close>

record ('g, 'api, 'ti) env =
  GraphId_default :: graphid
  directededge :: "graphid \<Rightarrow> directed_edge option"
  edge_startnode :: "graphid \<Rightarrow> graphid"
  edge_endnode :: "graphid \<Rightarrow> graphid"
  nodeinfo :: "graphid \<Rightarrow> node_info option"
  GetGraphTile :: "graphid \<Rightarrow> graph_tile option"
  ChinesePostmanGraph :: 'g
  addVertex :: "'g \<Rightarrow> cpvertex \<Rightarrow> 'g"
  addEdge :: "'g \<Rightarrow> cpvertex \<Rightarrow> cpvertex \<Rightarrow> cpedge \<Rightarrow> 'g"
  numVertices :: "'g \<Rightarrow> nat"
  numEdges :: "'g \<Rightarrow> nat"
  getUnbalancedVertices :: "'g \<Rightarrow> (graphid \<times> int) list"
  computeIdealEulerCycle :: "'g \<Rightarrow> cpvertex \<Rightarrow> graphid list"
  parse_locations :: "request \<Rightarrow> request"
  parse_costing :: "request \<Rightarrow> string \<times> request"
  TimeInfo_make :: "location \<Rightarrow> 'ti"
  recost_forward :: "real \<Rightarrow> real \<Rightarrow> 'ti \<Rightarrow> bool \<Rightarrow> bool \<Rightarrow> recost_proc"
  ParseApi :: "string \<Rightarrow> options_action \<Rightarrow> 'api"
  matrix :: "'api \<Rightarrow> string \<times> 'api"
  to_string_double :: "real \<Rightarrow> string"

definition to_ll :: "location \<Rightarrow> pointll" where
  "to_ll l = \<lparr>lng = lng (ll l), lat = lat (ll l)\<rparr>"

definition getPointLL :: "('g, 'api, 'ti) env \<Rightarrow> graphid \<Rightarrow> exn + pointll" where
  "getPointLL env node =
     (case nodeinfo env node of
        None \<Rightarrow> Inl Null_dereference
      | Some ni_start \<Rightarrow>
          (case GetGraphTile env node of
             None \<Rightarrow> Inl Null_dereference
           | Some tile \<Rightarrow> Inr (ni_start (base_ll tile))))"

definition pointLLToJson :: "(real \<Rightarrow> string) \<Rightarrow> pointll \<Rightarrow> string" where
  \<open>pointLLToJson to_str l =
     ''{'' @ ''"lat":'' @ to_str (lat l) @ '',"lon":'' @ to_str (lng l) @ ''}''\<close>

fun locationsToJson_loop :: "(real \<Rightarrow> string) \<Rightarrow> pointll list \<Rightarrow> string \<times> bool \<Rightarrow> string \<times> bool" where
  "locationsToJson_loop to_str [] st = st"
| "locationsToJson_loop to_str (location # rest) (json, extraCharacter) =
     locationsToJson_loop to_str rest (json @ pointLLToJson to_str location @ '', '', True)"

definition locationsToJson :: "(real \<Rightarrow> string) \<Rightarrow> pointll list \<Rightarrow> string" where
  "locationsToJson to_str locs =
     (case locationsToJson_loop to_str locs (''['', False) of
        (json, extraCharacter) \<Rightarrow>
          (if extraCharacter then butlast (butlast json) else json) @ '']'')"

text \<open>\<open>computeFloydWarshall\<close>: what it prints, and the string it returns.\<close>

definition computeFloydWarshall ::
  "('g, 'api, 'ti) env \<Rightarrow> pointll list \<Rightarrow> pointll list \<Rightarrow> string \<Rightarrow> event list \<times> string" where
  \<open>computeFloydWarshall env sources targets costing =
     (let jsonMatrixRequest =
            ''{"sources":'' @ locationsToJson (to_string_double env) sources @
            '', "targets":'' @ locationsToJson (to_string_double env) targets @
            '',"costing":"'' @ costing @ ''"}'';
          request = ParseApi env jsonMatrixRequest sources_to_targets;
          printed = matrix env request;
          returned = matrix env (snd printed)
      in ([Cout_matrix_result (fst printed)], fst returned))\<close>

text \<open>
  The first statements of \<open>chinese_postman\<close>. \<open>origin\<close> and \<open>destination\<close> are pointers to
  the local iterator \<open>it\<close>, so the store has that one cell; the iterator is an index into
  \<open>correlated\<close>. Incrementing or dereferencing an iterator at the end is not guarded.
\<close>

datatype var = Var_it

type_synonym store = "var \<Rightarrow> nat"

definition iter_incr :: "'a list \<Rightarrow> nat \<Rightarrow> exn + nat" where
  "iter_incr xs i = (if i < length xs then Inr (Suc i) else Inl Undefined_access)"

definition iter_deref :: "'a list \<Rightarrow> nat \<Rightarrow> exn + 'a" where
  "iter_deref xs i = (if i < length xs then Inr (xs ! i) else Inl Undefined_access)"

definition bind_locations :: "location list \<Rightarrow> exn + location \<times> location" where
  "bind_locations correlated =
     (let s0 = (\<lambda>v. 0) :: store;
          origin = Var_it
      in case iter_incr correlated (s0 Var_it) of
           Inl ub \<Rightarrow> Inl ub
         | Inr i \<Rightarrow>
             (let s1 = s0 (Var_it := i);
                  destination = Var_it
              in case iter_deref correlated (s1 origin) of
                   Inl ub \<Rightarrow> Inl ub
                 | Inr originLocation \<Rightarrow>
                     (case iter_deref correlated (s1 destination) of
                        Inl ub \<Rightarrow> Inl ub
                      | Inr destinationLocation \<Rightarrow> Inr (originLocation, destinationLocation))))"

text \<open>
  The loop over \<open>co->chinese_edges()\<close>. Its state is \<open>originNodeFound\<close>, \<open>originVertex\<close>
  and the graph \<open>G\<close>.
\<close>

fun add_chinese_edges ::
  "('g, 'api, 'ti) env \<Rightarrow> string list \<Rightarrow> 64 word list \<Rightarrow> bool \<times> cpvertex \<times> 'g
     \<Rightarrow> exn + bool \<times> cpvertex \<times> 'g" where
  "add_chinese_edges env avoid_edge_ids [] st = Inr st"
| "add_chinese_edges env avoid_edge_ids (edge # rest) (originNodeFound, originVertex, G) =
     (case directededge env (GraphId edge) of
        None \<Rightarrow> Inl Null_dereference
      | Some directed_edge \<Rightarrow>
          if \<not> forward directed_edge
          then add_chinese_edges env avoid_edge_ids rest (originNodeFound, originVertex, G)
          else if to_string (GraphId edge) \<in> set avoid_edge_ids
          then add_chinese_edges env avoid_edge_ids rest (originNodeFound, originVertex, G)
          else
            (let start_node = edge_startnode env (GraphId edge);
                 end_node = edge_endnode env (GraphId edge);
                 start_vertex = CPVertex start_node;
                 originVertex' = (if \<not> originNodeFound then start_vertex else originVertex);
                 G1 = addVertex env G start_vertex;
                 end_vertex = CPVertex end_node;
                 G2 = addVertex env G1 end_vertex;
                 cpEdge = CPEdge \<lparr>cost = 1, secs = 1\<rparr> (GraphId edge);
                 G3 = addEdge env G2 start_vertex end_vertex cpEdge
             in add_chinese_edges env avoid_edge_ids rest (True, originVertex', G3)))"

text \<open>
  The loop over the unbalanced vertices. Its state is \<open>overPoints\<close>, \<open>underPoints\<close> and
  \<open>locations\<close>; it prints one line per vertex.
\<close>

fun unbalanced_loop ::
  "('g, 'api, 'ti) env \<Rightarrow> (graphid \<times> int) list \<Rightarrow> pointll list \<times> pointll list \<times> pointll list
     \<Rightarrow> event list \<times> (exn + pointll list \<times> pointll list \<times> pointll list)" where
  "unbalanced_loop env [] st = ([], Inr st)"
| "unbalanced_loop env (v # rest) (overPoints, underPoints, locs) =
     (case getPointLL env (GraphId (fst v)) of
        Inl np \<Rightarrow> ([], Inl np)
      | Inr l \<Rightarrow>
          (case unbalanced_loop env rest
                  (if snd v > 0 then overPoints @ [l] else overPoints,
                   if snd v > 0 then underPoints
                   else if snd v < 0 then underPoints @ [l] else underPoints,
                   locs @ [l]) of
             (out, r) \<Rightarrow> (Cout_location (fst v) l # out, r)))"

text \<open>
  \<open>thor_worker_t::chinese_postman\<close>: what it writes and how it ends. Timing
  (\<open>measure_scope_time\<close>) is left out.
\<close>

definition chinese_postman ::
  "('g, 'api, 'ti) env \<Rightarrow> request \<Rightarrow> event list \<times> (exn + unit)" where
  "chinese_postman env request =
     (case bind_locations (locations request) of
        Inl ub \<Rightarrow> ([], Inl ub)
      | Inr (originLocation, destinationLocation) \<Rightarrow>
     (let originPoint = to_ll originLocation;
          destinationPoint = to_ll destinationLocation;
          out0 = [Cout_line ''thor_worker_t::chinese_postman''];
          parsed = parse_costing env (parse_locations env request);
          costing = fst parsed;
          options = snd parsed;
          co = costing_options options;
          avoid_edge_ids = map (\<lambda>avoid_edge. to_string (GraphId avoid_edge)) (avoid_edges co)
      in case add_chinese_edges env avoid_edge_ids (chinese_edges co)
                (False, CPVertex_default, ChinesePostmanGraph env) of
           Inl np \<Rightarrow> (out0, Inl np)
         | Inr (originNodeFound, originVertex, G) \<Rightarrow>
     (let out1 = out0 @ [Cout_num_vertices (numVertices env G), Cout_num_edges (numEdges env G)]
      in if length (getUnbalancedVertices env G) = 0
         then
           (let edgeGraphIds = computeIdealEulerCycle env G originVertex;
                out2 = out1 @ [Cout_line ''Ideal graph''];
                invariant = (has_date_time_type options
                             \<and> date_time_type options = Options_invariant);
                time_info = TimeInfo_make env originLocation;
                built = buildPath (GraphId_default env) (recost_forward env) originLocation
                          destinationLocation time_info invariant edgeGraphIds
            in (out2 @ fst built, snd built))
         else
           (let out2 = out1 @ [Cout_line ''Non Ideal graph'']
            in case unbalanced_loop env (getUnbalancedVertices env G) ([], [], []) of
                 (out3, Inl np) \<Rightarrow> (out2 @ out3, Inl np)
               | (out3, Inr (overPoints, underPoints, locs)) \<Rightarrow>
                   (let fw = computeFloydWarshall env overPoints underPoints costing;
                        matrixOutput = snd fw
                    in (out2 @ out3 @ fst fw @ [Cout_matrix_output matrixOutput], Inr ()))))))"

text \<open>
  Names for stating what the construction loop does. A candidate is forward-traversable
  when the reader resolves it to a directed edge whose \<open>forward()\<close> holds; \<open>add_segment\<close> is
  the tail of the loop body, run for a candidate that passed both checks;
  \<open>constructed_graph\<close> is the state of the loop of \<open>chinese_postman\<close> when it ends.
\<close>

definition forward_traversable :: "('g, 'api, 'ti) env \<Rightarrow> 64 word \<Rightarrow> bool" where
  "forward_traversable env edge =
     (case directededge env (GraphId edge) of None \<Rightarrow> False | Some d \<Rightarrow> forward d)"

definition add_segment :: "('g, 'api, 'ti) env \<Rightarrow> 'g \<Rightarrow> 64 word \<Rightarrow> 'g" where
  "add_segment env G edge =
     addEdge env
       (addVertex env (addVertex env G (CPVertex (edge_startnode env (GraphId edge))))
          (CPVertex (edge_endnode env (GraphId edge))))
       (CPVertex (edge_startnode env (GraphId edge)))
       (CPVertex (edge_endnode env (GraphId edge)))
       (CPEdge \<lparr>cost = 1, secs = 1\<rparr> (GraphId edge))"

definition constructed_graph ::
  "('g, 'api, 'ti) env \<Rightarrow> request \<Rightarrow> exn + bool \<times> cpvertex \<times> 'g" where
  "constructed_graph env request =
     (let co = costing_options (snd (parse_costing env (parse_locations env request)))
      in add_chinese_edges env
           (map (\<lambda>avoid_edge. to_string (GraphId avoid_edge)) (avoid_edges co))
           (chinese_edges co) (False, CPVertex_default, ChinesePostmanGraph env))"

text \<open>The identifiers that \<open>n\<close> successive calls of \<open>edge_cb\<close> yield, from an iterator state.\<close>

fun edge_cb_calls :: "graphid \<Rightarrow> graphid list \<Rightarrow> nat \<Rightarrow> nat \<Rightarrow> graphid list" where
  "edge_cb_calls dflt edge_ids edge_itr 0 = []"
| "edge_cb_calls dflt edge_ids edge_itr (Suc n) =
     fst (edge_cb dflt edge_ids edge_itr)
       # edge_cb_calls dflt edge_ids (snd (edge_cb dflt edge_ids edge_itr)) n"

section \<open>The limit on excluded regions\<close>

text \<open>
  Modelled from the spec: the check of the excluded-region specification against the
  configured limit. It belongs to the layer that prepares the request before the solve,
  whose source is not part of this development; the test suite only configures the limit
  (\<open>service_limits.max_avoid_polygons_length\<close>) and names the code 450. The spec: when
  the total boundary length of the excluded regions exceeds the configured maximum, the
  solve fails with a structured error carrying code 450, before graph construction
  begins. The length of a ring is geometry and stays a parameter.
\<close>

definition chinese_postman_action ::
  "(pointll list \<Rightarrow> real) \<Rightarrow> real \<Rightarrow> ('g, 'api, 'ti) env \<Rightarrow> pointll list list \<Rightarrow> request
     \<Rightarrow> event list \<times> (exn + unit)" where
  "chinese_postman_action ring_length max_avoid_polygons_length env avoid_polygons request =
     (if sum_list (map ring_length avoid_polygons) > max_avoid_polygons_length
      then ([], Inl (Valhalla_exception 450))
      else chinese_postman env request)"

section \<open>A reference multigraph\<close>

text \<open>
  Modelled from the spec: the Multigraph Model and the Eulerian Circuit Builder, that is
  the class \<open>ChinesePostmanGraph\<close>, whose source is not part of this development. The
  theorems below hold for every implementation of the class; this one serves to run the
  solve on concrete requests. Vertices carry their balance (outgoing minus incoming),
  \<open>addVertex\<close> is idempotent, \<open>addEdge\<close> inserts missing endpoints and updates both
  balances, the unbalanced vertices are those of nonzero balance in insertion order, and
  the circuit is built from the origin by following unused outgoing edges in insertion
  order and splicing (Hierholzer).
\<close>

record cpgraph =
  vertices :: "(cpvertex \<times> int) list"
  edges :: "(cpvertex \<times> cpvertex \<times> cpedge) list"

definition ref_addVertex :: "cpgraph \<Rightarrow> cpvertex \<Rightarrow> cpgraph" where
  "ref_addVertex g v =
     (if v \<in> fst ` set (vertices g) then g else g\<lparr>vertices := vertices g @ [(v, 0)]\<rparr>)"

definition bump_balance :: "cpvertex \<Rightarrow> int \<Rightarrow> (cpvertex \<times> int) list \<Rightarrow> (cpvertex \<times> int) list" where
  "bump_balance v d vs = map (\<lambda>(w, b). if w = v then (w, b + d) else (w, b)) vs"

definition ref_addEdge :: "cpgraph \<Rightarrow> cpvertex \<Rightarrow> cpvertex \<Rightarrow> cpedge \<Rightarrow> cpgraph" where
  "ref_addEdge g s t e =
     (let g1 = ref_addVertex (ref_addVertex g s) t
      in g1\<lparr>vertices := bump_balance t (- 1) (bump_balance s 1 (vertices g1)),
            edges := edges g1 @ [(s, t, e)]\<rparr>)"

fun ref_unbalanced :: "(cpvertex \<times> int) list \<Rightarrow> (graphid \<times> int) list" where
  "ref_unbalanced [] = []"
| "ref_unbalanced ((CPVertex n, b) # vs) =
     (if b = 0 then ref_unbalanced vs else (n, b) # ref_unbalanced vs)"
| "ref_unbalanced ((CPVertex_default, b) # vs) = ref_unbalanced vs"

fun cpedge_id :: "cpedge \<Rightarrow> graphid" where
  "cpedge_id (CPEdge c g) = g"

text \<open>Hierholzer with fuel: the unused edges and the circuit built so far are threaded.\<close>

fun ref_tour ::
  "nat \<Rightarrow> cpvertex \<Rightarrow> (cpvertex \<times> cpvertex \<times> cpedge) list \<times> graphid list
     \<Rightarrow> (cpvertex \<times> cpvertex \<times> cpedge) list \<times> graphid list" where
  "ref_tour 0 v st = st"
| "ref_tour (Suc n) v (unused, circuit) =
     (case find (\<lambda>e. fst e = v) unused of
        None \<Rightarrow> (unused, circuit)
      | Some e \<Rightarrow>
          (case ref_tour n (fst (snd e)) (remove1 e unused, circuit) of
             (unused1, circuit1) \<Rightarrow>
               ref_tour n v (unused1, cpedge_id (snd (snd e)) # circuit1)))"

definition ref_computeIdealEulerCycle :: "cpgraph \<Rightarrow> cpvertex \<Rightarrow> graphid list" where
  "ref_computeIdealEulerCycle g v = snd (ref_tour (Suc (length (edges g))) v (edges g, []))"

section \<open>A concrete road network\<close>

text \<open>
  The one-way square of the test map: nodes C = 3, G = 7, H = 8, F = 6 and the directed
  edges 10 (C to G), 11 (G to H), 12 (H to F), 13 (F to C). Edge 14 (G to C) is the
  reverse side of a one-way street, not traversable forward; edge 15 (C to F) is
  traversable. The reader knows no other edge. The recost service of the example pulls
  edges until the end sentinel and pushes one label per edge; the failing one throws
  after its first label. The matrix service of the example echoes its request.
\<close>

definition ex_label :: "graphid \<Rightarrow> edge_label" where
  "ex_label e = \<lparr>mode = kDrive, label_cost = \<lparr>cost = 1, secs = 1\<rparr>, edgeid = e,
                  restriction_idx = 0, transition_cost = \<lparr>cost = 0, secs = 0\<rparr>\<rparr>"

fun ex_recost_loop :: "nat \<Rightarrow> graphid \<Rightarrow> recost_proc" where
  "ex_recost_loop 0 dflt = Return"
| "ex_recost_loop (Suc n) dflt =
     Pull (\<lambda>e. if e = dflt then Return else Push (ex_label e) (ex_recost_loop n dflt))"

definition ex_recost :: "real \<Rightarrow> real \<Rightarrow> unit \<Rightarrow> bool \<Rightarrow> bool \<Rightarrow> recost_proc" where
  "ex_recost source_pct target_pct time_info invariant ignore_access =
     ex_recost_loop (Suc (Suc (Suc (Suc (Suc (Suc 0)))))) 0"

definition ex_recost_failing :: "real \<Rightarrow> real \<Rightarrow> unit \<Rightarrow> bool \<Rightarrow> bool \<Rightarrow> recost_proc" where
  "ex_recost_failing source_pct target_pct time_info invariant ignore_access =
     Pull (\<lambda>e. Push (ex_label e) (Pull (\<lambda>e'. Throw (Std_exception ''edges not connected''))))"

definition ex_startnode :: "graphid \<Rightarrow> graphid" where
  "ex_startnode e =
     (if e = 10 then 3 else if e = 11 then 7 else if e = 12 then 8 else if e = 13 then 6
      else if e = 14 then 7 else 3)"

definition ex_endnode :: "graphid \<Rightarrow> graphid" where
  "ex_endnode e =
     (if e = 10 then 7 else if e = 11 then 8 else if e = 12 then 6 else if e = 13 then 3
      else if e = 14 then 3 else 6)"

definition ex_directededge :: "graphid \<Rightarrow> directed_edge option" where
  "ex_directededge e =
     (if e = 14 then Some \<lparr>forward = False\<rparr>
      else if e = 10 \<or> e = 11 \<or> e = 12 \<or> e = 13 \<or> e = 15 then Some \<lparr>forward = True\<rparr>
      else None)"

definition ex_nodeinfo :: "graphid \<Rightarrow> node_info option" where
  "ex_nodeinfo n = Some (\<lambda>base. \<lparr>lng = lng base + of_nat (unat n), lat = lat base\<rparr>)"

definition ex_to_string_double :: "real \<Rightarrow> string" where
  "ex_to_string_double x = to_string_nat (nat \<lfloor>x\<rfloor>) @ ''.000000''"

definition ex_env ::
  "(real \<Rightarrow> real \<Rightarrow> unit \<Rightarrow> bool \<Rightarrow> bool \<Rightarrow> recost_proc) \<Rightarrow> (cpgraph, string, unit) env" where
  "ex_env rc =
     \<lparr>GraphId_default = 0,
      directededge = ex_directededge,
      edge_startnode = ex_startnode,
      edge_endnode = ex_endnode,
      nodeinfo = ex_nodeinfo,
      GetGraphTile = (\<lambda>n. Some \<lparr>base_ll = \<lparr>lng = 0, lat = 50\<rparr>\<rparr>),
      ChinesePostmanGraph = \<lparr>vertices = [], edges = []\<rparr>,
      addVertex = ref_addVertex,
      addEdge = ref_addEdge,
      numVertices = (\<lambda>g. length (vertices g)),
      numEdges = (\<lambda>g. length (edges g)),
      getUnbalancedVertices = (\<lambda>g. ref_unbalanced (vertices g)),
      computeIdealEulerCycle = ref_computeIdealEulerCycle,
      parse_locations = (\<lambda>r. r),
      parse_costing = (\<lambda>r. (''auto'', r)),
      TimeInfo_make = (\<lambda>l. ()),
      recost_forward = rc,
      ParseApi = (\<lambda>json action. json),
      matrix = (\<lambda>api. (api, api)),
      to_string_double = ex_to_string_double\<rparr>"

definition ex_location_A :: location where
  "ex_location_A = \<lparr>ll = \<lparr>lng = 0, lat = 50\<rparr>, path_edges = []\<rparr>"

definition ex_location_C :: location where
  "ex_location_C =
     \<lparr>ll = \<lparr>lng = 3, lat = 50\<rparr>,
      path_edges = [\<lparr>graph_id = 10, percent_along = 0\<rparr>, \<lparr>graph_id = 13, percent_along = 1\<rparr>]\<rparr>"

definition ex_request :: "64 word list \<Rightarrow> 64 word list \<Rightarrow> request" where
  "ex_request chinese avoid =
     \<lparr>locations = [ex_location_A, ex_location_C],
      costing_options = \<lparr>avoid_edges = avoid, chinese_edges = chinese\<rparr>,
      has_date_time_type = False,
      date_time_type = Options_current\<rparr>"

text \<open>
  The graphs the construction loop makes of the edges 10, 11, 12, 13 (the square), of the
  edges 10, 11 alone, and of the edges 12, 13, 10, 11 and 11, 12, 13, 10 in those orders;
  the point of a node;
  an excluded region of one ring, with a length of 300 per vertex.
\<close>

definition ex_square_graph :: cpgraph where
  "ex_square_graph =
     \<lparr>vertices = [(CPVertex 3, 0), (CPVertex 7, 0), (CPVertex 8, 0), (CPVertex 6, 0)],
      edges = [(CPVertex 3, CPVertex 7, CPEdge \<lparr>cost = 1, secs = 1\<rparr> 10),
               (CPVertex 7, CPVertex 8, CPEdge \<lparr>cost = 1, secs = 1\<rparr> 11),
               (CPVertex 8, CPVertex 6, CPEdge \<lparr>cost = 1, secs = 1\<rparr> 12),
               (CPVertex 6, CPVertex 3, CPEdge \<lparr>cost = 1, secs = 1\<rparr> 13)]\<rparr>"

definition ex_open_graph :: cpgraph where
  "ex_open_graph =
     \<lparr>vertices = [(CPVertex 3, 1), (CPVertex 7, 0), (CPVertex 8, - 1)],
      edges = [(CPVertex 3, CPVertex 7, CPEdge \<lparr>cost = 1, secs = 1\<rparr> 10),
               (CPVertex 7, CPVertex 8, CPEdge \<lparr>cost = 1, secs = 1\<rparr> 11)]\<rparr>"

definition ex_point :: "graphid \<Rightarrow> pointll" where
  "ex_point n = \<lparr>lng = of_nat (unat n), lat = 50\<rparr>"

definition ex_ring :: "pointll list" where
  "ex_ring = [\<lparr>lng = 0, lat = 50\<rparr>, \<lparr>lng = 3, lat = 50\<rparr>, \<lparr>lng = 3, lat = 49\<rparr>,
              \<lparr>lng = 0, lat = 50\<rparr>]"

definition ex_ring_length :: "pointll list \<Rightarrow> real" where
  "ex_ring_length ring = 300 * of_nat (length ring)"

definition ex_rotated_graph :: cpgraph where
  "ex_rotated_graph =
     \<lparr>vertices = [(CPVertex 8, 0), (CPVertex 6, 0), (CPVertex 3, 0), (CPVertex 7, 0)],
      edges = [(CPVertex 8, CPVertex 6, CPEdge \<lparr>cost = 1, secs = 1\<rparr> 12),
               (CPVertex 6, CPVertex 3, CPEdge \<lparr>cost = 1, secs = 1\<rparr> 13),
               (CPVertex 3, CPVertex 7, CPEdge \<lparr>cost = 1, secs = 1\<rparr> 10),
               (CPVertex 7, CPVertex 8, CPEdge \<lparr>cost = 1, secs = 1\<rparr> 11)]\<rparr>"


section \<open>Auxiliary facts\<close>

lemma digit_char_inj: "a < 10 \<Longrightarrow> b < 10 \<Longrightarrow> digit_char a = digit_char b \<Longrightarrow> a = b"
proof -
  assume a: "a < 10" and b: "b < 10" and eq: "digit_char a = digit_char b"
  have d: "distinct ''0123456789''" by simp
  have l: "length ''0123456789'' = 10" by simp
  from d a b l eq show "a = b"
    unfolding digit_char_def by (metis nth_eq_iff_index_eq)
qed

lemma to_string_nat_nonempty: "to_string_nat n \<noteq> []"
  by (subst to_string_nat.simps) simp

lemma to_string_nat_small: "n < 10 \<Longrightarrow> to_string_nat n = [digit_char n]"
  by (subst to_string_nat.simps) simp

lemma to_string_nat_large:
  "\<not> n < 10 \<Longrightarrow> to_string_nat n = to_string_nat (n div 10) @ [digit_char (n mod 10)]"
  by (subst to_string_nat.simps) simp

lemma to_string_nat_inj: "to_string_nat m = to_string_nat n \<Longrightarrow> m = n"
proof (induction m arbitrary: n rule: to_string_nat.induct)
  case (1 m)
  show ?case
  proof (cases "m < 10")
    case m: True
    show ?thesis
    proof (cases "n < 10")
      case True
      with m "1.prems" show ?thesis
        by (simp add: to_string_nat_small digit_char_inj)
    next
      case False
      with m "1.prems" to_string_nat_nonempty[of "n div 10"] show ?thesis
        by (simp add: to_string_nat_small to_string_nat_large)
    qed
  next
    case m: False
    show ?thesis
    proof (cases "n < 10")
      case True
      with m "1.prems" to_string_nat_nonempty[of "m div 10"] show ?thesis
        by (simp add: to_string_nat_small to_string_nat_large)
    next
      case False
      with m "1.prems" have q: "to_string_nat (m div 10) = to_string_nat (n div 10)"
        and r: "digit_char (m mod 10) = digit_char (n mod 10)"
        by (simp_all add: to_string_nat_large)
      from "1.IH"[OF m q] have "m div 10 = n div 10" .
      moreover from r have "m mod 10 = n mod 10"
        by (intro digit_char_inj) simp_all
      ultimately show ?thesis
        by (metis div_mult_mod_eq)
    qed
  qed
qed

lemma to_string_inj: "to_string a = to_string b \<longleftrightarrow> a = b"
  unfolding to_string_def using to_string_nat_inj by (auto simp: word_unat_eq_iff)

lemma to_string_mem_avoid:
  "to_string (GraphId e) \<in> set (map (\<lambda>avoid_edge. to_string (GraphId avoid_edge)) avs) \<longleftrightarrow> e \<in> set avs"
  by (auto simp: to_string_inj GraphId_def)

lemma find_percent_along_loop_miss:
  "edge_id \<notin> graph_id ` set pes \<Longrightarrow>
   find_percent_along_loop pes edge_id = Inl (Logic_error ''Could not find candidate edge for the location'')"
  by (induction pes) auto

lemma find_percent_along_loop_hit:
  "edge_id \<in> graph_id ` set pes \<Longrightarrow> \<exists>p. find_percent_along_loop pes edge_id = Inr p"
  by (induction pes) auto

lemma add_chinese_edges_resolved:
  assumes "\<forall>e\<in>set es. directededge env (GraphId e) \<noteq> None"
  shows "add_chinese_edges env avoid es (f, ov, G) =
     Inr (f \<or> filter (\<lambda>e. forward_traversable env e \<and> to_string (GraphId e) \<notin> set avoid) es \<noteq> [],
          (if f then ov
           else case filter (\<lambda>e. forward_traversable env e \<and> to_string (GraphId e) \<notin> set avoid) es of
                  [] \<Rightarrow> ov
                | e # _ \<Rightarrow> CPVertex (edge_startnode env (GraphId e))),
          foldl (add_segment env) G
            (filter (\<lambda>e. forward_traversable env e \<and> to_string (GraphId e) \<notin> set avoid) es))"
  using assms
proof (induction es arbitrary: f ov G)
  case Nil
  then show ?case by simp
next
  case (Cons e es)
  from Cons.prems obtain d where d: "directededge env (GraphId e) = Some d" by auto
  from Cons.prems have rest: "\<forall>e\<in>set es. directededge env (GraphId e) \<noteq> None" by simp
  show ?case
    using d Cons.IH[OF rest]
    by (simp add: forward_traversable_def add_segment_def Let_def)
qed

lemma unbalanced_loop_resolved:
  assumes "\<forall>v\<in>set vs. getPointLL env (GraphId (fst v)) = Inr (pt (fst v))"
  shows "unbalanced_loop env vs (overPoints, underPoints, locs) =
     (map (\<lambda>v. Cout_location (fst v) (pt (fst v))) vs,
      Inr (overPoints @ map (\<lambda>v. pt (fst v)) (filter (\<lambda>v. snd v > 0) vs),
           underPoints @ map (\<lambda>v. pt (fst v)) (filter (\<lambda>v. snd v < 0) vs),
           locs @ map (\<lambda>v. pt (fst v)) vs))"
  using assms
proof (induction vs arbitrary: overPoints underPoints locs)
  case Nil
  then show ?case by simp
next
  case (Cons v vs)
  from Cons.prems have here: "getPointLL env (GraphId (fst v)) = Inr (pt (fst v))"
    and rest: "\<forall>v\<in>set vs. getPointLL env (GraphId (fst v)) = Inr (pt (fst v))"
    by simp_all
  show ?case
    by (simp add: here Cons.IH[OF rest])
qed

lemma chinese_postman_balanced:
  assumes "bind_locations (locations request) = Inr (originLocation, destinationLocation)"
    and "constructed_graph env request = Inr (found, originVertex, G)"
    and "getUnbalancedVertices env G = []"
  shows "chinese_postman env request =
     ([Cout_line ''thor_worker_t::chinese_postman'', Cout_num_vertices (numVertices env G),
       Cout_num_edges (numEdges env G), Cout_line ''Ideal graph'']
      @ fst (buildPath (GraphId_default env) (recost_forward env) originLocation
               destinationLocation (TimeInfo_make env originLocation)
               (has_date_time_type (snd (parse_costing env (parse_locations env request)))
                \<and> date_time_type (snd (parse_costing env (parse_locations env request)))
                    = Options_invariant)
               (computeIdealEulerCycle env G originVertex)),
      snd (buildPath (GraphId_default env) (recost_forward env) originLocation
               destinationLocation (TimeInfo_make env originLocation)
               (has_date_time_type (snd (parse_costing env (parse_locations env request)))
                \<and> date_time_type (snd (parse_costing env (parse_locations env request)))
                    = Options_invariant)
               (computeIdealEulerCycle env G originVertex)))"
  using assms by (simp add: chinese_postman_def constructed_graph_def Let_def)

lemma add_chinese_edges_env:
  assumes d: "directededge env' = directededge env" and s: "edge_startnode env' = edge_startnode env"
    and e: "edge_endnode env' = edge_endnode env" and v: "addVertex env' = addVertex env"
    and a: "addEdge env' = addEdge env"
  shows "add_chinese_edges env' avoid es st = add_chinese_edges env avoid es st"
proof (induction es arbitrary: st)
  case Nil
  show ?case by simp
next
  case (Cons x es)
  obtain f ov G where st: "st = (f, ov, G)" by (cases st) auto
  show ?case
    unfolding st add_chinese_edges.simps d s e v a Cons.IH ..
qed

lemma constructed_graph_env:
  assumes "directededge env' = directededge env" "edge_startnode env' = edge_startnode env"
    "edge_endnode env' = edge_endnode env" "addVertex env' = addVertex env"
    "addEdge env' = addEdge env" "parse_locations env' = parse_locations env"
    "parse_costing env' = parse_costing env" "ChinesePostmanGraph env' = ChinesePostmanGraph env"
  shows "constructed_graph env' request = constructed_graph env request"
  unfolding constructed_graph_def assms(6-8) add_chinese_edges_env[OF assms(1-5)] ..

lemma chinese_postman_unbalanced:
  assumes "bind_locations (locations request) = Inr (originLocation, destinationLocation)"
    and "constructed_graph env request = Inr (found, originVertex, G)"
    and "getUnbalancedVertices env G \<noteq> []"
    and "\<forall>v\<in>set (getUnbalancedVertices env G). getPointLL env (GraphId (fst v)) = Inr (pt (fst v))"
  shows "chinese_postman env request =
     ([Cout_line ''thor_worker_t::chinese_postman'', Cout_num_vertices (numVertices env G),
       Cout_num_edges (numEdges env G), Cout_line ''Non Ideal graph'']
      @ map (\<lambda>v. Cout_location (fst v) (pt (fst v))) (getUnbalancedVertices env G)
      @ fst (computeFloydWarshall env
               (map (\<lambda>v. pt (fst v)) (filter (\<lambda>v. snd v > 0) (getUnbalancedVertices env G)))
               (map (\<lambda>v. pt (fst v)) (filter (\<lambda>v. snd v < 0) (getUnbalancedVertices env G)))
               (fst (parse_costing env (parse_locations env request))))
      @ [Cout_matrix_output (snd (computeFloydWarshall env
               (map (\<lambda>v. pt (fst v)) (filter (\<lambda>v. snd v > 0) (getUnbalancedVertices env G)))
               (map (\<lambda>v. pt (fst v)) (filter (\<lambda>v. snd v < 0) (getUnbalancedVertices env G)))
               (fst (parse_costing env (parse_locations env request)))))],
      Inr ())"
  using assms(1-3)
  by (simp add: chinese_postman_def constructed_graph_def Let_def
        unbalanced_loop_resolved[OF assms(4)])

lemma edge_cb_calls_from:
  "itr \<le> length es \<Longrightarrow>
   edge_cb_calls dflt es itr n = take n (drop itr es) @ replicate (n - (length es - itr)) dflt"
proof (induction n arbitrary: itr)
  case 0
  then show ?case by simp
next
  case (Suc n)
  show ?case
  proof (cases "itr = length es")
    case True
    then show ?thesis using Suc.IH[of itr] by (simp add: edge_cb_def replicate_Suc[symmetric] del: replicate_Suc)
  next
    case False
    with Suc.prems have lt: "itr < length es" by simp
    then have d: "drop itr es = es ! itr # drop (Suc itr) es"
      by (simp add: Cons_nth_drop_Suc)
    from lt have "Suc itr \<le> length es" by simp
    from Suc.IH[OF this] lt show ?thesis
      by (simp add: edge_cb_def d Suc_diff_Suc)
  qed
qed

lemma find_percent_along_miss:
  "edge_id \<notin> graph_id ` set (path_edges location) \<Longrightarrow>
   find_percent_along location edge_id
     = Inl (Logic_error ''Could not find candidate edge for the location'')"
  by (simp add: find_percent_along_def find_percent_along_loop_miss)

lemma find_percent_along_hit:
  "edge_id \<in> graph_id ` set (path_edges location) \<Longrightarrow>
   \<exists>p. find_percent_along location edge_id = Inr p"
  by (simp add: find_percent_along_def find_percent_along_loop_hit)

lemma vector_front_nonempty: "es \<noteq> [] \<Longrightarrow> vector_front es = Inr (hd es)"
  by (cases es) (simp_all add: vector_front_def)

lemma vector_back_nonempty: "es \<noteq> [] \<Longrightarrow> vector_back es = Inr (last es)"
  by (simp add: vector_back_def)

lemma buildPath_undefined_iff:
  "(snd (buildPath dflt recost origin dest time_info invariant es) = Inl Undefined_access)
     = (es = [])"
proof (cases "es = []")
  case True
  then show ?thesis by (simp add: buildPath_def vector_front_def)
next
  case False
  then show ?thesis
    by (auto simp: buildPath_def vector_front_nonempty vector_back_nonempty Let_def
          split: sum.splits prod.splits option.splits thrown.splits)
qed

lemma bind_locations_eq:
  "bind_locations locs = (if 2 \<le> length locs then Inr (locs ! 1, locs ! 1) else Inl Undefined_access)"
  by (cases locs; cases "tl locs")
     (auto simp: bind_locations_def iter_incr_def iter_deref_def Let_def)

lemma to_string_mem_avoid_image:
  "to_string (GraphId e) \<in> (\<lambda>avoid_edge. to_string (GraphId avoid_edge)) ` set avs \<longleftrightarrow> e \<in> set avs"
  using to_string_mem_avoid[of e avs] by simp

lemma getPointLL_env:
  "nodeinfo env' = nodeinfo env \<Longrightarrow> GetGraphTile env' = GetGraphTile env \<Longrightarrow>
   getPointLL env' node = getPointLL env node"
  by (simp add: getPointLL_def split: option.splits)

lemma ex_bind:
  "bind_locations (locations (ex_request chinese avoid)) = Inr (ex_location_C, ex_location_C)"
  by (simp add: bind_locations_eq ex_request_def)

lemma ex_env_fields:
  "recost_forward (ex_env rc) = rc"
  "GraphId_default (ex_env rc) = 0"
  "TimeInfo_make (ex_env rc) l = ()"
  "numVertices (ex_env rc) g = length (vertices g)"
  "numEdges (ex_env rc) g = length (edges g)"
  "parse_costing (ex_env rc) (parse_locations (ex_env rc) r) = (''auto'', r)"
  by (simp_all add: ex_env_def)

lemma ex_square_constructed:
  "constructed_graph (ex_env rc) (ex_request [10, 11, 12, 13] [])
     = Inr (True, CPVertex 3, ex_square_graph)"
  by code_simp

lemma ex_square_balanced: "getUnbalancedVertices (ex_env rc) ex_square_graph = []"
  by code_simp

lemma ex_square_circuit:
  "computeIdealEulerCycle (ex_env rc) ex_square_graph (CPVertex 3) = [10, 11, 12, 13]"
  by code_simp

lemma ex_square_path:
  "buildPath 0 ex_recost ex_location_C ex_location_C () False [10, 11, 12, 13]
     = ([Cout_edge_ids [10, 11, 12, 13],
         Cout_path [(10, 1, 0), (11, 1, 0), (12, 1, 0), (13, 1, 0)]], Inr ())"
  by code_simp

lemma ex_square_sizes: "length (vertices ex_square_graph) = 4" "length (edges ex_square_graph) = 4"
  by (simp_all add: ex_square_graph_def)

lemma ex_request_fields:
  "has_date_time_type (ex_request chinese avoid) = False"
  "locations (ex_request chinese avoid) = [ex_location_A, ex_location_C]"
  "chinese_edges (costing_options (ex_request chinese avoid)) = chinese"
  "avoid_edges (costing_options (ex_request chinese avoid)) = avoid"
  by (simp_all add: ex_request_def)

lemma ex_open_constructed:
  "constructed_graph (ex_env rc) (ex_request [10, 11] []) = Inr (True, CPVertex 3, ex_open_graph)"
  by code_simp

lemma ex_open_unbalanced:
  "getUnbalancedVertices (ex_env rc) ex_open_graph = [(3, 1), (8, - 1)]"
  by code_simp

lemma ex_getPointLL: "getPointLL (ex_env rc) (GraphId n) = Inr (ex_point n)"
  by (simp add: getPointLL_def ex_env_def ex_nodeinfo_def ex_point_def GraphId_def)

lemma ex_open_sizes: "length (vertices ex_open_graph) = 3" "length (edges ex_open_graph) = 2"
  by (simp_all add: ex_open_graph_def)

lemma locationsToJson_loop_eq:
  "locationsToJson_loop to_str locs (json, b) =
     (json @ concat (map (\<lambda>l. pointLLToJson to_str l @ '', '') locs), b \<or> locs \<noteq> [])"
  by (induction locs arbitrary: json b) simp_all

lemma concat_separator_shift:
  "concat (map (\<lambda>p. f p @ sep) (l # ls)) = f l @ concat (map (\<lambda>p. sep @ f p) ls) @ sep"
  by (induction ls arbitrary: l) simp_all

lemma locationsToJson_Nil: "locationsToJson to_str [] = ''[]''"
  by (simp add: locationsToJson_def)

lemma locationsToJson_Cons:
  "locationsToJson to_str (l # ls) =
     ''['' @ pointLLToJson to_str l @ concat (map (\<lambda>p. '', '' @ pointLLToJson to_str p) ls) @ '']''"
proof -
  have "butlast (butlast (''['' @ pointLLToJson to_str l
          @ concat (map (\<lambda>p. '', '' @ pointLLToJson to_str p) ls) @ '', ''))
        = ''['' @ pointLLToJson to_str l @ concat (map (\<lambda>p. '', '' @ pointLLToJson to_str p) ls)"
    by (simp add: butlast_append)
  then show ?thesis
    unfolding locationsToJson_def locationsToJson_loop_eq concat_separator_shift
    by simp
qed

section \<open>Claims about the path materializer\<close>

text \<open>
  Claim C6. The edge supplier \<open>edge_cb\<close> handed to the recost service yields, over
  successive calls from the start, the identifiers of the input sequence in their order,
  each position once; every call after the sequence is exhausted yields the
  default-constructed \<open>GraphId\<close>.
\<close>

theorem edge_cb_yields_sequence_then_sentinel:
  "edge_cb_calls dflt es 0 n = take n es @ replicate (n - length es) dflt"
  using edge_cb_calls_from[of 0 es dflt n] by simp

text \<open>
  Claim C5. For a non-empty edge sequence, when the origin has no candidate path edge
  with the first identifier of the sequence, or the destination none with the last,
  \<open>buildPath\<close> ends with a logic error. Only the input sequence has been printed, no path;
  the result is the same whatever the recost service is, which is not called.
\<close>

theorem missing_candidate_edge_fails:
  assumes "es \<noteq> []"
    and "hd es \<notin> graph_id ` set (path_edges origin) \<or> last es \<notin> graph_id ` set (path_edges dest)"
  shows "buildPath dflt recost origin dest time_info invariant es =
     ([Cout_edge_ids es],
      Inl (Logic_error
            (if hd es \<notin> graph_id ` set (path_edges origin)
             then ''Could not find candidate edge used for origin label''
             else ''Could not find candidate edge used for destination label'')))
    \<and> buildPath dflt recost' origin dest time_info invariant es
        = buildPath dflt recost origin dest time_info invariant es"
proof (cases "hd es \<in> graph_id ` set (path_edges origin)")
  case False
  then show ?thesis using assms(1)
    by (simp add: buildPath_def vector_front_nonempty find_percent_along_miss)
next
  case True
  then obtain p where p: "find_percent_along origin (hd es) = Inr p"
    using find_percent_along_hit by blast
  from True assms(2) have "last es \<notin> graph_id ` set (path_edges dest)" by simp
  then show ?thesis using assms(1) True p
    by (simp add: buildPath_def vector_front_nonempty vector_back_nonempty
          find_percent_along_miss)
qed

theorem missing_candidate_edge_fails_witness:
  "[10, 11] \<noteq> ([] :: graphid list)
   \<and> hd [10, 11] \<notin> graph_id ` set (path_edges ex_location_A)
   \<and> buildPath 0 ex_recost ex_location_A ex_location_C () False [10, 11] =
       ([Cout_edge_ids [10, 11]],
        Inl (Logic_error ''Could not find candidate edge used for origin label''))"
proof -
  have h1: "[10, 11] \<noteq> ([] :: graphid list)" by simp
  have h2: "hd [10, 11] \<notin> graph_id ` set (path_edges ex_location_A)
      \<or> last [10, 11] \<notin> graph_id ` set (path_edges ex_location_C)"
    by (simp add: ex_location_A_def)
  have h3: "hd [10, 11] \<notin> graph_id ` set (path_edges ex_location_A)"
    by (simp add: ex_location_A_def)
  from missing_candidate_edge_fails[OF h1 h2, of 0 ex_recost "()" False ex_recost] h1 h2 h3
  show ?thesis by simp
qed

text \<open>
  Claim C1, as the code has it. When the recost service throws a \<open>std::exception\<close>
  during materialization, the failure is logged and \<open>buildPath\<close> returns normally, after
  printing the path made of the labels received before the failure.
\<close>

theorem recost_failure_is_logged_and_path_emitted:
  assumes "es \<noteq> []"
    and "find_percent_along origin (hd es) = Inr source_pct"
    and "find_percent_along dest (last es) = Inr target_pct"
    and "run_recost (recost source_pct target_pct time_info invariant True) dflt [] es (0, [])
           = ((edge_itr, path), Some (Std_exception what))"
  shows "buildPath dflt recost origin dest time_info invariant es =
     ([Cout_edge_ids es,
       Log_error (''Bi-directional astar failed to recost final path: '' @ what),
       print_path path], Inr ())"
  using assms
  by (simp add: buildPath_def vector_front_nonempty vector_back_nonempty)

theorem recost_failure_is_logged_and_path_emitted_witness:
  "[10, 13] \<noteq> ([] :: graphid list)
   \<and> find_percent_along ex_location_C (hd [10, 13]) = Inr 0
   \<and> find_percent_along ex_location_C (last [10, 13]) = Inr 1
   \<and> run_recost (ex_recost_failing 0 1 () False True) 0 [] [10, 13] (0, [])
        = ((2, [PathInfo kDrive \<lparr>cost = 1, secs = 1\<rparr> 10 0 0 \<lparr>cost = 0, secs = 0\<rparr> False]),
           Some (Std_exception ''edges not connected''))
   \<and> buildPath 0 ex_recost_failing ex_location_C ex_location_C () False [10, 13] =
     ([Cout_edge_ids [10, 13],
       Log_error (''Bi-directional astar failed to recost final path: '' @ ''edges not connected''),
       print_path [PathInfo kDrive \<lparr>cost = 1, secs = 1\<rparr> 10 0 0 \<lparr>cost = 0, secs = 0\<rparr> False]],
      Inr ())"
proof -
  have h1: "[10, 13] \<noteq> ([] :: graphid list)" by simp
  have h2: "find_percent_along ex_location_C (hd [10, 13]) = Inr 0"
    by (simp add: find_percent_along_def ex_location_C_def)
  have h3: "find_percent_along ex_location_C (last [10, 13]) = Inr 1"
    by (simp add: find_percent_along_def ex_location_C_def)
  have h4: "run_recost (ex_recost_failing 0 1 () False True) 0 [] [10, 13] (0, [])
        = ((2, [PathInfo kDrive \<lparr>cost = 1, secs = 1\<rparr> 10 0 0 \<lparr>cost = 0, secs = 0\<rparr> False]),
           Some (Std_exception ''edges not connected''))"
    by (simp add: ex_recost_failing_def edge_cb_def label_cb_def ex_label_def)
  from recost_failure_is_logged_and_path_emitted
         [where recost = ex_recost_failing and time_info = "()" and invariant = False,
          OF h1 h2 h3 h4] h1 h2 h3 h4
  show ?thesis by blast
qed

text \<open>
  Claim C1 as it is stated (a recost failure fails the whole materialization, no partial
  path) does not hold: the recost service of the example throws after its first label;
  \<open>buildPath\<close> logs the failure, prints a path of one edge out of four and returns
  normally.
\<close>

theorem recost_failure_counterexample:
  "snd (run_recost (ex_recost_failing 0 1 () False True) 0 [] [10, 11, 12, 13] (0, []))
     = Some (Std_exception ''edges not connected'')
   \<and> buildPath 0 ex_recost_failing ex_location_C ex_location_C () False [10, 11, 12, 13] =
     ([Cout_edge_ids [10, 11, 12, 13],
       Log_error ''Bi-directional astar failed to recost final path: edges not connected'',
       Cout_path [(10, 1, 0)]], Inr ())"
  by (simp add: buildPath_def ex_recost_failing_def ex_location_C_def vector_front_def
        vector_back_def find_percent_along_def edge_cb_def label_cb_def ex_label_def
        print_path_def)

section \<open>Claims about the solve\<close>

text \<open>
  Claim C4. Over candidates that the reader resolves, the construction loop skips a
  candidate exactly when it is not traversable forward or its identifier is among the
  avoid edges; for each other candidate, in order, it runs \<open>add_segment\<close> once: both
  endpoints are added as vertices, then one edge from the start node to the end node. The
  graph after the loop is the fold of \<open>add_segment\<close> over the candidates that pass.
\<close>

theorem candidate_excluded_iff_not_forward_or_avoided:
  assumes "\<forall>e\<in>set candidates. directededge env (GraphId e) \<noteq> None"
  shows "\<exists>originNodeFound originVertex.
     add_chinese_edges env (map (\<lambda>avoid_edge. to_string (GraphId avoid_edge)) avoid)
       candidates (found, v, G)
     = Inr (originNodeFound, originVertex,
            foldl (add_segment env) G
              (filter (\<lambda>e. forward_traversable env e \<and> e \<notin> set avoid) candidates))"
  using add_chinese_edges_resolved[OF assms,
          of "map (\<lambda>avoid_edge. to_string (GraphId avoid_edge)) avoid" found v G]
  by (simp add: to_string_mem_avoid_image)

theorem candidate_excluded_iff_not_forward_or_avoided_witness:
  "\<exists>originNodeFound originVertex.
     add_chinese_edges (ex_env ex_recost) [to_string (GraphId 15)] [10, 14, 15, 11]
       (False, CPVertex_default, \<lparr>vertices = [], edges = []\<rparr>)
     = Inr (originNodeFound, originVertex, ex_open_graph)"
proof -
  have h: "\<forall>e\<in>set [10, 14, 15, 11]. directededge (ex_env ex_recost) (GraphId e) \<noteq> None"
    by (simp add: ex_env_def ex_directededge_def GraphId_def)
  have k: "foldl (add_segment (ex_env ex_recost)) \<lparr>vertices = [], edges = []\<rparr>
             (filter (\<lambda>e. forward_traversable (ex_env ex_recost) e \<and> e \<notin> set [15])
                [10, 14, 15, 11]) = ex_open_graph"
    by code_simp
  from candidate_excluded_iff_not_forward_or_avoided
         [OF h, of "[15]" False CPVertex_default "\<lparr>vertices = [], edges = []\<rparr>"]
  show ?thesis
    unfolding k by simp
qed

text \<open>
  Claim C9. The origin vertex of the circuit is the start node of the first candidate
  that passes both checks, in the order of the candidates, and the default-constructed
  vertex when none passes: it is read off the candidates, the avoid edges and the reader,
  not off the origin location. In the balanced branch the circuit is computed from that
  vertex.
\<close>

theorem origin_vertex_is_start_of_first_kept_segment:
  assumes "bind_locations (locations request) = Inr (originLocation, destinationLocation)"
    and "co = costing_options (snd (parse_costing env (parse_locations env request)))"
    and "\<forall>e\<in>set (chinese_edges co). directededge env (GraphId e) \<noteq> None"
    and "kept = filter (\<lambda>e. forward_traversable env e \<and> e \<notin> set (avoid_edges co)) (chinese_edges co)"
    and "originVertex = (case kept of [] \<Rightarrow> CPVertex_default
                         | e # _ \<Rightarrow> CPVertex (edge_startnode env (GraphId e)))"
    and "G = foldl (add_segment env) (ChinesePostmanGraph env) kept"
    and "getUnbalancedVertices env G = []"
  shows "constructed_graph env request = Inr (kept \<noteq> [], originVertex, G)
    \<and> chinese_postman env request =
       ([Cout_line ''thor_worker_t::chinese_postman'', Cout_num_vertices (numVertices env G),
         Cout_num_edges (numEdges env G), Cout_line ''Ideal graph'']
        @ fst (buildPath (GraphId_default env) (recost_forward env) originLocation
                 destinationLocation (TimeInfo_make env originLocation)
                 (has_date_time_type (snd (parse_costing env (parse_locations env request)))
                  \<and> date_time_type (snd (parse_costing env (parse_locations env request)))
                      = Options_invariant)
                 (computeIdealEulerCycle env G originVertex)),
        snd (buildPath (GraphId_default env) (recost_forward env) originLocation
                 destinationLocation (TimeInfo_make env originLocation)
                 (has_date_time_type (snd (parse_costing env (parse_locations env request)))
                  \<and> date_time_type (snd (parse_costing env (parse_locations env request)))
                      = Options_invariant)
                 (computeIdealEulerCycle env G originVertex)))"
proof -
  have c: "constructed_graph env request = Inr (kept \<noteq> [], originVertex, G)"
    unfolding constructed_graph_def Let_def assms(2)[symmetric]
    using add_chinese_edges_resolved[OF assms(3),
            of "map (\<lambda>avoid_edge. to_string (GraphId avoid_edge)) (avoid_edges co)"
               False CPVertex_default "ChinesePostmanGraph env"]
    by (simp add: to_string_mem_avoid_image assms(4,5,6))
  from c chinese_postman_balanced[OF assms(1) c assms(7)] show ?thesis by blast
qed

theorem origin_vertex_is_start_of_first_kept_segment_witness:
  "constructed_graph (ex_env ex_recost) (ex_request [14, 15, 12, 13, 10, 11] [15])
     = Inr (True, CPVertex 8, ex_rotated_graph)
   \<and> chinese_postman (ex_env ex_recost) (ex_request [14, 15, 12, 13, 10, 11] [15]) =
       ([Cout_line ''thor_worker_t::chinese_postman'', Cout_num_vertices 4, Cout_num_edges 4,
         Cout_line ''Ideal graph'', Cout_edge_ids [12, 13, 10, 11]],
        Inl (Logic_error ''Could not find candidate edge used for origin label''))"
proof -
  let ?env = "ex_env ex_recost" and ?req = "ex_request [14, 15, 12, 13, 10, 11] [15]"
  have co: "costing_options ?req
              = costing_options (snd (parse_costing ?env (parse_locations ?env ?req)))"
    by (simp add: ex_env_fields)
  have res: "\<forall>e\<in>set (chinese_edges (costing_options ?req)).
               directededge ?env (GraphId e) \<noteq> None"
    by (simp add: ex_request_fields ex_env_def ex_directededge_def GraphId_def)
  have kept: "[12, 13, 10, 11]
     = filter (\<lambda>e. forward_traversable ?env e \<and> e \<notin> set (avoid_edges (costing_options ?req)))
         (chinese_edges (costing_options ?req))"
    by code_simp
  have ov: "CPVertex 8 = (case [12, 13, 10, 11] of [] \<Rightarrow> CPVertex_default
                          | e # _ \<Rightarrow> CPVertex (edge_startnode ?env (GraphId e)))"
    by code_simp
  have g: "ex_rotated_graph
             = foldl (add_segment ?env) (ChinesePostmanGraph ?env) [12, 13, 10, 11]"
    by code_simp
  have bal: "getUnbalancedVertices ?env ex_rotated_graph = []"
    by code_simp
  have circ: "computeIdealEulerCycle ?env ex_rotated_graph (CPVertex 8) = [12, 13, 10, 11]"
    by code_simp
  have path: "buildPath 0 ex_recost ex_location_C ex_location_C () False [12, 13, 10, 11]
     = ([Cout_edge_ids [12, 13, 10, 11]],
        Inl (Logic_error ''Could not find candidate edge used for origin label''))"
    by code_simp
  have sizes: "length (vertices ex_rotated_graph) = 4" "length (edges ex_rotated_graph) = 4"
    by (simp_all add: ex_rotated_graph_def)
  from origin_vertex_is_start_of_first_kept_segment[OF ex_bind co res kept ov g bal]
  show ?thesis
    by (simp add: ex_env_fields ex_request_fields circ path sizes)
qed

text \<open>
  Claim C8. \<open>origin\<close> and \<open>destination\<close> point to the same iterator, advanced once before
  either is dereferenced: for a request with at least two locations both are bound to the
  second location, whatever the first one is, and the offset lookups of \<open>buildPath\<close> and
  the time context are made with the second location.
\<close>

theorem origin_and_destination_are_second_location:
  assumes "2 \<le> length (locations request)"
    and "constructed_graph env request = Inr (found, originVertex, G)"
    and "getUnbalancedVertices env G = []"
  shows "bind_locations (locations request) = Inr (locations request ! 1, locations request ! 1)
    \<and> bind_locations (other # tl (locations request)) = bind_locations (locations request)
    \<and> chinese_postman env request =
       ([Cout_line ''thor_worker_t::chinese_postman'', Cout_num_vertices (numVertices env G),
         Cout_num_edges (numEdges env G), Cout_line ''Ideal graph'']
        @ fst (buildPath (GraphId_default env) (recost_forward env) (locations request ! 1)
                 (locations request ! 1) (TimeInfo_make env (locations request ! 1))
                 (has_date_time_type (snd (parse_costing env (parse_locations env request)))
                  \<and> date_time_type (snd (parse_costing env (parse_locations env request)))
                      = Options_invariant)
                 (computeIdealEulerCycle env G originVertex)),
        snd (buildPath (GraphId_default env) (recost_forward env) (locations request ! 1)
                 (locations request ! 1) (TimeInfo_make env (locations request ! 1))
                 (has_date_time_type (snd (parse_costing env (parse_locations env request)))
                  \<and> date_time_type (snd (parse_costing env (parse_locations env request)))
                      = Options_invariant)
                 (computeIdealEulerCycle env G originVertex)))"
proof -
  have b: "bind_locations (locations request) = Inr (locations request ! 1, locations request ! 1)"
    using assms(1) by (simp add: bind_locations_eq)
  obtain l0 l1 rest where l: "locations request = l0 # l1 # rest"
    using assms(1) by (cases "locations request"; cases "tl (locations request)") auto
  have o: "bind_locations (other # tl (locations request)) = bind_locations (locations request)"
    by (simp add: bind_locations_eq l)
  from b o chinese_postman_balanced[OF b assms(2,3)] show ?thesis by blast
qed

theorem origin_and_destination_are_second_location_witness:
  "2 \<le> length (locations (ex_request [10, 11, 12, 13] []))
   \<and> locations (ex_request [10, 11, 12, 13] []) ! 1 = ex_location_C
   \<and> bind_locations (locations (ex_request [10, 11, 12, 13] []))
        = Inr (ex_location_C, ex_location_C)
   \<and> chinese_postman (ex_env ex_recost) (ex_request [10, 11, 12, 13] []) =
       ([Cout_line ''thor_worker_t::chinese_postman'', Cout_num_vertices 4, Cout_num_edges 4,
         Cout_line ''Ideal graph'', Cout_edge_ids [10, 11, 12, 13],
         Cout_path [(10, 1, 0), (11, 1, 0), (12, 1, 0), (13, 1, 0)]], Inr ())"
proof -
  have h: "2 \<le> length (locations (ex_request [10, 11, 12, 13] []))"
    by (simp add: ex_request_fields)
  have n: "locations (ex_request [10, 11, 12, 13] []) ! 1 = ex_location_C"
    by (simp add: ex_request_fields)
  note t = origin_and_destination_are_second_location
             [OF h ex_square_constructed ex_square_balanced, of ex_location_A ex_recost]
  from t[THEN conjunct1] t[THEN conjunct2, THEN conjunct2] h n
  show ?thesis
    by (simp add: ex_env_fields ex_request_fields ex_square_circuit ex_square_path
          ex_square_sizes)
qed




text \<open>
  Claim C10. \<open>buildPath\<close> reads \<open>front()\<close> and \<open>back()\<close> of the edge sequence without a
  guard: it ends in the undefined access exactly when the sequence is empty. The balanced
  branch of \<open>chinese_postman\<close> passes it whatever the circuit builder returned, so the
  solve of a balanced graph ends in the undefined access exactly when the circuit is empty.
\<close>

theorem buildPath_requires_nonempty_sequence:
  assumes "bind_locations (locations request) = Inr (originLocation, destinationLocation)"
    and "constructed_graph env request = Inr (found, originVertex, G)"
    and "getUnbalancedVertices env G = []"
  shows "(snd (buildPath dflt recost origin dest time_info invariant es) = Inl Undefined_access)
           = (es = [])
    \<and> (snd (chinese_postman env request) = Inl Undefined_access)
           = (computeIdealEulerCycle env G originVertex = [])"
  by (simp add: chinese_postman_balanced[OF assms] buildPath_undefined_iff)

theorem buildPath_requires_nonempty_sequence_witness:
  "constructed_graph (ex_env ex_recost) (ex_request [] [])
     = Inr (False, CPVertex_default, \<lparr>vertices = [], edges = []\<rparr>)
   \<and> getUnbalancedVertices (ex_env ex_recost) \<lparr>vertices = [], edges = []\<rparr> = []
   \<and> computeIdealEulerCycle (ex_env ex_recost) \<lparr>vertices = [], edges = []\<rparr> CPVertex_default = []
   \<and> snd (chinese_postman (ex_env ex_recost) (ex_request [] [])) = Inl Undefined_access"
proof -
  have c: "constructed_graph (ex_env ex_recost) (ex_request [] [])
     = Inr (False, CPVertex_default, \<lparr>vertices = [], edges = []\<rparr>)"
    by code_simp
  have b: "getUnbalancedVertices (ex_env ex_recost) \<lparr>vertices = [], edges = []\<rparr> = []"
    by code_simp
  have e: "computeIdealEulerCycle (ex_env ex_recost) \<lparr>vertices = [], edges = []\<rparr>
             CPVertex_default = []"
    by code_simp
  from buildPath_requires_nonempty_sequence[OF ex_bind c b, THEN conjunct2] c b e
  show ?thesis by simp
qed

text \<open>
  Claim C2. When the constructed multigraph has an unbalanced vertex (and the reader
  resolves the unbalanced vertices to points), the solve prints the reply of the matrix
  service and returns. The service is called, twice, on the request parsed for the action
  \<open>sources_to_targets\<close> from the JSON text whose sources are the points of the vertices of
  positive balance and whose targets are the points of those of negative balance, in the
  order of the unbalanced vertices; the text is given in full by the last three
  equations. The circuit builder and the recost service are not called: replacing them
  changes nothing, so no circuit and no path is built.
\<close>

theorem unbalanced_graph_outputs_matrix_of_surplus_and_deficit:
  assumes \<open>bind_locations (locations request) = Inr (originLocation, destinationLocation)\<close>
    and \<open>constructed_graph env request = Inr (found, originVertex, G)\<close>
    and \<open>getUnbalancedVertices env G \<noteq> []\<close>
    and \<open>\<forall>v\<in>set (getUnbalancedVertices env G). getPointLL env (GraphId (fst v)) = Inr (pt (fst v))\<close>
    and \<open>sources = map (\<lambda>v. pt (fst v)) (filter (\<lambda>v. snd v > 0) (getUnbalancedVertices env G))\<close>
    and \<open>targets = map (\<lambda>v. pt (fst v)) (filter (\<lambda>v. snd v < 0) (getUnbalancedVertices env G))\<close>
    and \<open>costing = fst (parse_costing env (parse_locations env request))\<close>
    and \<open>api = ParseApi env
            (''{"sources":'' @ locationsToJson (to_string_double env) sources @
             '', "targets":'' @ locationsToJson (to_string_double env) targets @
             '',"costing":"'' @ costing @ ''"}'') sources_to_targets\<close>
  shows \<open>chinese_postman env request =
     ([Cout_line ''thor_worker_t::chinese_postman'', Cout_num_vertices (numVertices env G),
       Cout_num_edges (numEdges env G), Cout_line ''Non Ideal graph'']
      @ map (\<lambda>v. Cout_location (fst v) (pt (fst v))) (getUnbalancedVertices env G)
      @ [Cout_matrix_result (fst (matrix env api)),
         Cout_matrix_output (fst (matrix env (snd (matrix env api))))],
      Inr ())
    \<and> chinese_postman (env\<lparr>computeIdealEulerCycle := circuit_builder, recost_forward := recost\<rparr>)
          request
        = chinese_postman env request
    \<and> locationsToJson to_str [] = ''[]''
    \<and> locationsToJson to_str (l # ls) =
         ''['' @ pointLLToJson to_str l
           @ concat (map (\<lambda>p. '', '' @ pointLLToJson to_str p) ls) @ '']''
    \<and> pointLLToJson to_str l
         = ''{"lat":'' @ to_str (lat l) @ '',"lon":'' @ to_str (lng l) @ ''}''\<close>
proof -
  let ?env' = "env\<lparr>computeIdealEulerCycle := circuit_builder, recost_forward := recost\<rparr>"
  note here = chinese_postman_unbalanced[OF assms(1-4)]
  have c: "constructed_graph ?env' request = Inr (found, originVertex, G)"
    using assms(2) by (simp add: constructed_graph_env[of ?env' env])
  have u: "getUnbalancedVertices ?env' G \<noteq> []"
    using assms(3) by simp
  have g: "\<forall>v\<in>set (getUnbalancedVertices ?env' G).
             getPointLL ?env' (GraphId (fst v)) = Inr (pt (fst v))"
    using assms(4) by (simp add: getPointLL_env[of ?env' env])
  have fw: "computeFloydWarshall ?env' = computeFloydWarshall env"
    by (intro ext) (simp add: computeFloydWarshall_def)
  from chinese_postman_unbalanced[OF assms(1) c u g] here
  have indep: "chinese_postman ?env' request = chinese_postman env request"
    by (simp add: fw)
  have run: "computeFloydWarshall env sources targets costing =
               ([Cout_matrix_result (fst (matrix env api))],
                fst (matrix env (snd (matrix env api))))"
    by (simp add: computeFloydWarshall_def Let_def assms(8))
  have out: "chinese_postman env request =
     ([Cout_line ''thor_worker_t::chinese_postman'', Cout_num_vertices (numVertices env G),
       Cout_num_edges (numEdges env G), Cout_line ''Non Ideal graph'']
      @ map (\<lambda>v. Cout_location (fst v) (pt (fst v))) (getUnbalancedVertices env G)
      @ [Cout_matrix_result (fst (matrix env api)),
         Cout_matrix_output (fst (matrix env (snd (matrix env api))))],
      Inr ())"
    using here run unfolding assms(5-7) by simp
  have pj: \<open>pointLLToJson to_str l
         = ''{"lat":'' @ to_str (lat l) @ '',"lon":'' @ to_str (lng l) @ ''}''\<close>
    by (simp add: pointLLToJson_def)
  from out indep locationsToJson_Nil[of to_str] locationsToJson_Cons[of to_str l ls] pj
  show ?thesis by blast
qed

theorem unbalanced_graph_outputs_matrix_of_surplus_and_deficit_witness:
  \<open>getUnbalancedVertices (ex_env ex_recost) ex_open_graph = [(3, 1), (8, - 1)]
   \<and> chinese_postman (ex_env ex_recost) (ex_request [10, 11] []) =
       ([Cout_line ''thor_worker_t::chinese_postman'', Cout_num_vertices 3, Cout_num_edges 2,
         Cout_line ''Non Ideal graph'', Cout_location 3 (ex_point 3), Cout_location 8 (ex_point 8),
         Cout_matrix_result
           ''{"sources":[{"lat":50.000000,"lon":3.000000}], "targets":[{"lat":50.000000,"lon":8.000000}],"costing":"auto"}'',
         Cout_matrix_output
           ''{"sources":[{"lat":50.000000,"lon":3.000000}], "targets":[{"lat":50.000000,"lon":8.000000}],"costing":"auto"}''],
        Inr ())\<close>
proof -
  let ?env = "ex_env ex_recost"
  let ?json = \<open>''{"sources":[{"lat":50.000000,"lon":3.000000}], "targets":[{"lat":50.000000,"lon":8.000000}],"costing":"auto"}''\<close>
  have h3: "getUnbalancedVertices ?env ex_open_graph \<noteq> []"
    by (simp add: ex_open_unbalanced)
  have h4: "\<forall>v\<in>set (getUnbalancedVertices ?env ex_open_graph).
              getPointLL ?env (GraphId (fst v)) = Inr (ex_point (fst v))"
    by (simp add: ex_getPointLL)
  have h5: "[ex_point 3] = map (\<lambda>v. ex_point (fst v))
              (filter (\<lambda>v. snd v > 0) (getUnbalancedVertices ?env ex_open_graph))"
    by (simp add: ex_open_unbalanced)
  have h6: "[ex_point 8] = map (\<lambda>v. ex_point (fst v))
              (filter (\<lambda>v. snd v < 0) (getUnbalancedVertices ?env ex_open_graph))"
    by (simp add: ex_open_unbalanced)
  have h7: "''auto'' = fst (parse_costing ?env (parse_locations ?env (ex_request [10, 11] [])))"
    by (simp add: ex_env_fields)
  have h8: \<open>?json = ParseApi ?env
            (''{"sources":'' @ locationsToJson (to_string_double ?env) [ex_point 3] @
             '', "targets":'' @ locationsToJson (to_string_double ?env) [ex_point 8] @
             '',"costing":"'' @ ''auto'' @ ''"}'') sources_to_targets\<close>
    by code_simp
  have m: "matrix ?env = (\<lambda>api. (api, api))"
    by (simp add: ex_env_def)
  from unbalanced_graph_outputs_matrix_of_surplus_and_deficit
         [OF ex_bind ex_open_constructed h3 h4 h5 h6 h7 h8, THEN conjunct1]
  show ?thesis
    by (simp add: ex_env_fields ex_open_unbalanced ex_open_sizes m)
qed

text \<open>
  Claim C7. When the total boundary length of the excluded regions exceeds the configured
  maximum, the solve fails with the structured error of code 450 and nothing else happens:
  no output, no graph construction, whatever the request and the environment are.
\<close>

theorem avoid_limit_exceeded_fails_with_450:
  assumes "sum_list (map ring_length avoid_polygons) > max_avoid_polygons_length"
  shows "chinese_postman_action ring_length max_avoid_polygons_length env avoid_polygons request
           = ([], Inl (Valhalla_exception 450))"
  using assms by (simp add: chinese_postman_action_def)

theorem avoid_limit_exceeded_fails_with_450_witness:
  "1000 < sum_list (map ex_ring_length [ex_ring])
   \<and> chinese_postman_action ex_ring_length 1000 (ex_env ex_recost) [ex_ring]
        (ex_request [10, 11, 12, 13] []) = ([], Inl (Valhalla_exception 450))"
proof -
  have h: "1000 < sum_list (map ex_ring_length [ex_ring])"
    by (simp add: ex_ring_length_def ex_ring_def)
  from avoid_limit_exceeded_fails_with_450[OF h] h show ?thesis by blast
qed

end
